theory Spec2Isabelle
  imports Complex_Main "HOL-Library.Sublist"
begin

section \<open>Vector arithmetic used by the collision core\<close>

text \<open>
  The collision code computes with the \<^verbatim>\<open>Vector3\<close> class of the three.js library.
  Numbers are modelled as mathematical reals (rounding of IEEE doubles is outside the
  model). A vector is a value; \<^verbatim>\<open>copy\<close> and \<^verbatim>\<open>clone\<close> are therefore the identity and
  every in-place method returns the updated vector.
\<close>

datatype Vector3 = Vector3 (vx: real) (vy: real) (vz: real)

definition lengthV :: "Vector3 \<Rightarrow> real" where
  \<comment> \<open>\<^verbatim>\<open>Math.sqrt(x*x + y*y + z*z)\<close>\<close>
  "lengthV v = sqrt (vx v * vx v + vy v * vy v + vz v * vz v)"

definition multiplyScalar :: "Vector3 \<Rightarrow> real \<Rightarrow> Vector3" where
  "multiplyScalar v s = Vector3 (vx v * s) (vy v * s) (vz v * s)"

definition divideScalar :: "Vector3 \<Rightarrow> real \<Rightarrow> Vector3" where
  \<comment> \<open>\<^verbatim>\<open>return this.multiplyScalar(1 / scalar)\<close>\<close>
  "divideScalar v s = multiplyScalar v (1 / s)"

definition normalizeV :: "Vector3 \<Rightarrow> Vector3" where
  \<comment> \<open>\<^verbatim>\<open>return this.divideScalar(this.length() || 1)\<close>: a zero vector stays zero.\<close>
  "normalizeV v = divideScalar v (if lengthV v = 0 then 1 else lengthV v)"

definition addV :: "Vector3 \<Rightarrow> Vector3 \<Rightarrow> Vector3" where
  "addV a b = Vector3 (vx a + vx b) (vy a + vy b) (vz a + vz b)"

definition subV :: "Vector3 \<Rightarrow> Vector3 \<Rightarrow> Vector3" where
  "subV a b = Vector3 (vx a - vx b) (vy a - vy b) (vz a - vz b)"

definition dot :: "Vector3 \<Rightarrow> Vector3 \<Rightarrow> real" where
  "dot a b = vx a * vx b + vy a * vy b + vz a * vz b"

definition negate :: "Vector3 \<Rightarrow> Vector3" where
  "negate v = Vector3 (- vx v) (- vy v) (- vz v)"

definition reflect :: "Vector3 \<Rightarrow> Vector3 \<Rightarrow> Vector3" where
  \<comment> \<open>\<^verbatim>\<open>return this.sub(_vector.copy(normal).multiplyScalar(2 * this.dot(normal)))\<close>\<close>
  "reflect v n = subV v (multiplyScalar n (2 * dot v n))"

datatype Quaternion = Quaternion (qx: real) (qy: real) (qz: real) (qw: real)

definition setFromAxisAngle :: "Vector3 \<Rightarrow> real \<Rightarrow> Quaternion" where
  "setFromAxisAngle axis angle =
     (let halfAngle = angle / 2; s = sin halfAngle
      in Quaternion (vx axis * s) (vy axis * s) (vz axis * s) (cos halfAngle))"

definition applyQuaternion :: "Vector3 \<Rightarrow> Quaternion \<Rightarrow> Vector3" where
  \<comment> \<open>\<^verbatim>\<open>t = 2 * cross(q.xyz, v); v + q.w * t + cross(q.xyz, t)\<close>\<close>
  "applyQuaternion v q =
     (let tx = 2 * (qy q * vz v - qz q * vy v);
          ty = 2 * (qz q * vx v - qx q * vz v);
          tz = 2 * (qx q * vy v - qy q * vx v)
      in Vector3 (vx v + qw q * tx + qy q * tz - qz q * ty)
                 (vy v + qw q * ty + qz q * tx - qx q * tz)
                 (vz v + qw q * tz + qx q * ty - qy q * tx))"

definition applyAxisAngle :: "Vector3 \<Rightarrow> Vector3 \<Rightarrow> real \<Rightarrow> Vector3" where
  "applyAxisAngle v axis angle = applyQuaternion v (setFromAxisAngle axis angle)"

section \<open>Scene, ray queries and intersections\<close>

text \<open>
  A scene object carries a name (the empty string when it was never named) and its
  children. The ray caster is the external spatial query provider: the functions below
  take it as the parameter \<open>intersectObjects\<close>, called with the state of the shared
  \<^verbatim>\<open>raycaster\<close> object at the moment of the call, the candidate objects and the
  \<^verbatim>\<open>recursive\<close> flag.
\<close>

datatype object3d = Object3D (name: string) (children: "object3d list")

datatype face = Face (face_normal: Vector3)

record intersection =
  hit_distance :: real
  hit_point :: Vector3
  hit_face :: "face option"
  hit_object :: object3d

record raycaster =
  ray_origin :: Vector3
  ray_direction :: Vector3
  far :: real
  firstHitOnly :: bool

type_synonym spatial_query = "raycaster \<Rightarrow> object3d list \<Rightarrow> bool \<Rightarrow> intersection list"

fun objects_of :: "object3d \<Rightarrow> object3d list" where
  "objects_of (Object3D n cs) = Object3D n cs # concat (map objects_of cs)"

definition scene_objects :: "object3d \<Rightarrow> object3d list" where
  \<comment> \<open>every object a recursive query over \<^verbatim>\<open>scene.children\<close> can report\<close>
  "scene_objects scene = concat (map objects_of (children scene))"

definition noIntersections :: spatial_query where
  \<comment> \<open>a provider that never reports a hit (the mocked ray caster of the tests)\<close>
  "noIntersections r objs recursive = []"

definition fixedIntersections :: "intersection list \<Rightarrow> spatial_query" where
  \<comment> \<open>a provider that reports the given hits (\<^verbatim>\<open>mockReturnValue\<close> of the tests)\<close>
  "fixedIntersections hits r objs recursive = hits"

section \<open>Name classification\<close>

fun str_includes :: "string \<Rightarrow> string \<Rightarrow> bool" where
  \<comment> \<open>\<^verbatim>\<open>String.prototype.includes\<close>: substring containment\<close>
  "str_includes [] sub = (sub = [])"
| "str_includes (c # cs) sub = (prefix sub (c # cs) \<or> str_includes cs sub)"

definition isCollisionName :: "string \<Rightarrow> bool" where
  \<comment> \<open>the filter predicate of the ground+wall variant; an empty name is falsy\<close>
  "isCollisionName nm =
     (nm \<noteq> [] \<and> (str_includes nm ''ground'' \<or> str_includes nm ''wall''
                 \<or> str_includes nm ''barrier'' \<or> str_includes nm ''block''))"

definition isGroundName :: "string \<Rightarrow> bool" where
  \<comment> \<open>the filter predicate of the ground-only variant\<close>
  "isGroundName nm = (nm \<noteq> [] \<and> str_includes nm ''ground'')"

section \<open>Collision probe\<close>

record hit_record =
  hit :: bool
  point :: Vector3
  normal :: Vector3
  distance :: real
  type :: string

definition edgeRecord :: "Vector3 \<Rightarrow> Vector3 \<Rightarrow> hit_record" where
  \<comment> \<open>the object literal returned when no surface is found ahead and below\<close>
  "edgeRecord position direction =
     (let hitPoint = addV position (multiplyScalar direction 0.5);
          hitNormal = negate direction
      in \<lparr>hit = True, point = hitPoint, normal = hitNormal, distance = 0.5,
          type = ''track_edge''\<rparr>)"

definition checkBoundaryCollision ::
  "spatial_query \<Rightarrow> Vector3 \<Rightarrow> Vector3 \<Rightarrow> object3d \<Rightarrow> real \<Rightarrow> hit_record option" where
  \<comment> \<open>ground+wall variant (the unnamed source file with the wall, barrier and block names)\<close>
  "checkBoundaryCollision intersectObjects position velocity scene lookAheadDistance =
     (let speed = lengthV velocity in
      if speed < 0.1 then None
      else
        let direction = normalizeV velocity;
            origin = Vector3 (vx position) (vy position + 0.5) (vz position);
            rc = \<lparr>ray_origin = origin, ray_direction = direction,
                  far = lookAheadDistance, firstHitOnly = True\<rparr>;
            intersects = intersectObjects rc (children scene) True;
            collisionIntersects =
              filter (\<lambda>h. isCollisionName (name (hit_object h))) intersects
        in case collisionIntersects of
             h # _ \<Rightarrow>
               Some \<lparr>hit = True, point = hit_point h,
                     normal = (case hit_face h of Some f \<Rightarrow> face_normal f
                               | None \<Rightarrow> negate direction),
                     distance = hit_distance h,
                     type = (if str_includes (name (hit_object h)) ''ground''
                             then ''track_surface'' else ''wall'')\<rparr>
           | [] \<Rightarrow>
               let edgeCheckDistance = 1.5;
                   downDirection = Vector3 0 (-1) 0;
                   ahead = addV position (multiplyScalar direction edgeCheckDistance);
                   edgeCheckOrigin = Vector3 (vx ahead) (vy ahead + 2.0) (vz ahead);
                   rc' = rc\<lparr>ray_origin := edgeCheckOrigin, ray_direction := downDirection,
                            far := 5.0\<rparr>;
                   edgeIntersects = intersectObjects rc' (children scene) True;
                   collisionAhead =
                     filter (\<lambda>h. isCollisionName (name (hit_object h))) edgeIntersects
               in if collisionAhead = [] then Some (edgeRecord position direction)
                  else None)"

definition checkBoundaryCollision_groundOnly ::
  "spatial_query \<Rightarrow> Vector3 \<Rightarrow> Vector3 \<Rightarrow> object3d \<Rightarrow> real \<Rightarrow> hit_record option" where
  \<comment> \<open>ground-only variant (\<^verbatim>\<open>src/utils/collisionDetection.js\<close>)\<close>
  "checkBoundaryCollision_groundOnly intersectObjects position velocity scene lookAheadDistance =
     (let speed = lengthV velocity in
      if speed < 0.1 then None
      else
        let direction = normalizeV velocity;
            origin = Vector3 (vx position) (vy position + 0.5) (vz position);
            rc = \<lparr>ray_origin = origin, ray_direction = direction,
                  far = lookAheadDistance, firstHitOnly = True\<rparr>;
            intersects = intersectObjects rc (children scene) True;
            groundIntersects =
              filter (\<lambda>h. isGroundName (name (hit_object h))) intersects
        in if groundIntersects = [] then
             let edgeCheckDistance = 1.5;
                 downDirection = Vector3 0 (-1) 0;
                 ahead = addV position (multiplyScalar direction edgeCheckDistance);
                 edgeCheckOrigin = Vector3 (vx ahead) (vy ahead + 2.0) (vz ahead);
                 rc' = rc\<lparr>ray_origin := edgeCheckOrigin, ray_direction := downDirection,
                          far := 5.0\<rparr>;
                 edgeIntersects = intersectObjects rc' (children scene) True;
                 groundAhead =
                   filter (\<lambda>h. isGroundName (name (hit_object h))) edgeIntersects
             in if groundAhead = [] then Some (edgeRecord position direction)
                else None
           else None)"

definition isPositionOnTrack :: "spatial_query \<Rightarrow> Vector3 \<Rightarrow> object3d \<Rightarrow> real \<Rightarrow> bool" where
  \<comment> \<open>ground+wall variant\<close>
  "isPositionOnTrack intersectObjects position scene maxDistance =
     (let downDirection = Vector3 0 (-1) 0;
          checkOrigin = Vector3 (vx position) (vy position + 2.0) (vz position);
          rc = \<lparr>ray_origin = checkOrigin, ray_direction = downDirection,
                far = maxDistance + 2.0, firstHitOnly = True\<rparr>;
          intersects = intersectObjects rc (children scene) True;
          collisionHits = filter (\<lambda>h. isCollisionName (name (hit_object h))) intersects
      in case collisionHits of
           h # _ \<Rightarrow>
             (let distanceToGround = \<bar>vy position - vy (hit_point h)\<bar>
              in distanceToGround \<le> maxDistance)
         | [] \<Rightarrow> False)"

definition isPositionOnTrack_groundOnly ::
  "spatial_query \<Rightarrow> Vector3 \<Rightarrow> object3d \<Rightarrow> real \<Rightarrow> bool" where
  \<comment> \<open>ground-only variant (\<^verbatim>\<open>src/utils/collisionDetection.js\<close>)\<close>
  "isPositionOnTrack_groundOnly intersectObjects position scene maxDistance =
     (let downDirection = Vector3 0 (-1) 0;
          checkOrigin = Vector3 (vx position) (vy position + 2.0) (vz position);
          rc = \<lparr>ray_origin = checkOrigin, ray_direction = downDirection,
                far = maxDistance + 2.0, firstHitOnly = True\<rparr>;
          intersects = intersectObjects rc (children scene) True;
          groundHits = filter (\<lambda>h. isGroundName (name (hit_object h))) intersects
      in case groundHits of
           h # _ \<Rightarrow>
             (let distanceToGround = \<bar>vy position - vy (hit_point h)\<bar>
              in distanceToGround \<le> maxDistance)
         | [] \<Rightarrow> False)"

section \<open>Multi-directional probe\<close>

record multi_hit_record = hit_record +
  directionIndex :: nat

definition withDirectionIndex :: "hit_record \<Rightarrow> nat \<Rightarrow> multi_hit_record" where
  \<comment> \<open>\<^verbatim>\<open>{ ...collision, directionIndex: index }\<close>\<close>
  "withDirectionIndex collision index =
     \<lparr>hit = hit collision, point = point collision, normal = normal collision,
      distance = distance collision, type = type collision, directionIndex = index\<rparr>"

fun forEachIndexed :: "('a \<Rightarrow> nat \<Rightarrow> 's \<Rightarrow> 's) \<Rightarrow> 'a list \<Rightarrow> nat \<Rightarrow> 's \<Rightarrow> 's" where
  \<comment> \<open>\<^verbatim>\<open>Array.prototype.forEach((element, index) => ...)\<close> over a state\<close>
  "forEachIndexed f [] i s = s"
| "forEachIndexed f (a # as) i s = forEachIndexed f as (Suc i) (f a i s)"

definition multiProbe ::
  "(Vector3 \<Rightarrow> Vector3 \<Rightarrow> object3d \<Rightarrow> hit_record option)
     \<Rightarrow> Vector3 \<Rightarrow> Vector3 \<Rightarrow> object3d \<Rightarrow> multi_hit_record option" where
  \<comment> \<open>the body of \<^verbatim>\<open>checkMultiDirectionalCollision\<close>, the same text in both variants,
      over the three-argument call of \<^verbatim>\<open>checkBoundaryCollision\<close> it makes\<close>
  "multiProbe probe position velocity scene =
     (let directions =
            [normalizeV velocity,
             applyAxisAngle (normalizeV velocity) (Vector3 0 1 0) (pi / 4),
             applyAxisAngle (normalizeV velocity) (Vector3 0 1 0) (- pi / 4)];
          collisions =
            forEachIndexed
              (\<lambda>dir index collisions.
                 case probe position (multiplyScalar dir (lengthV velocity)) scene of
                   Some collision \<Rightarrow> collisions @ [withDirectionIndex collision index]
                 | None \<Rightarrow> collisions)
              directions 0 []
      in case collisions of c # _ \<Rightarrow> Some c | [] \<Rightarrow> None)"

definition checkMultiDirectionalCollision ::
  "spatial_query \<Rightarrow> Vector3 \<Rightarrow> Vector3 \<Rightarrow> object3d \<Rightarrow> multi_hit_record option" where
  \<comment> \<open>ground+wall variant; the probe is called with its default look-ahead distance\<close>
  "checkMultiDirectionalCollision intersectObjects position velocity scene =
     multiProbe (\<lambda>p v s. checkBoundaryCollision intersectObjects p v s 2.0)
       position velocity scene"

definition checkMultiDirectionalCollision_groundOnly ::
  "spatial_query \<Rightarrow> Vector3 \<Rightarrow> Vector3 \<Rightarrow> object3d \<Rightarrow> multi_hit_record option" where
  \<comment> \<open>ground-only variant (\<^verbatim>\<open>src/utils/collisionDetection.js\<close>)\<close>
  "checkMultiDirectionalCollision_groundOnly intersectObjects position velocity scene =
     multiProbe (\<lambda>p v s. checkBoundaryCollision_groundOnly intersectObjects p v s 2.0)
       position velocity scene"

section \<open>Ground contact of a wheel\<close>

record wheel =
  position_y :: real
  isOnDirt :: bool

definition getGroundPosition ::
  "spatial_query \<Rightarrow> object3d \<Rightarrow> Vector3 \<Rightarrow> wheel \<Rightarrow> real \<Rightarrow> nat \<Rightarrow> real \<Rightarrow> real \<times> wheel" where
  \<comment> \<open>\<^verbatim>\<open>getGroundPosition\<close> of \<^verbatim>\<open>Kart.test.js\<close>; \<open>wheelBase\<close> is the world position that
      \<^verbatim>\<open>wheelBase.current.getWorldPosition\<close> writes into \<^verbatim>\<open>origin\<close>. The result pairs the
      returned number with the wheel after the call.\<close>
  "getGroundPosition intersectObjects mockScene wheelBase wheel offset wheelIndex delta =
     (let origin = wheelBase;
          down = Vector3 0 (-1) 0;
          rc = \<lparr>ray_origin = origin, ray_direction = down, far = 3, firstHitOnly = True\<rparr>;
          intersects = intersectObjects rc (children mockScene) True
      in case intersects of
           h # _ \<Rightarrow>
             let safeY = vy (hit_point h) + 0.3;
                 wheel = wheel\<lparr>position_y := safeY\<rparr>;
                 wheel = (if name (hit_object h) = ''ground dirt'' \<and> vy (hit_point h) < 0.5
                          then wheel\<lparr>isOnDirt := True\<rparr>
                          else wheel\<lparr>isOnDirt := False\<rparr>)
             in (safeY, wheel)
         | [] \<Rightarrow> (position_y wheel, wheel\<lparr>isOnDirt := False\<rparr>))"

section \<open>Bounce response\<close>

record bounce_response =
  velocity :: Vector3
  force :: real
  direction :: Vector3

definition calculateBounceResponse ::
  "Vector3 \<Rightarrow> Vector3 \<Rightarrow> Vector3 \<Rightarrow> real \<Rightarrow> bounce_response" where
  \<comment> \<open>the same text in both variants of the file\<close>
  "calculateBounceResponse hitPoint hitNormal v bounceStrength =
     (let reflectedVelocity = multiplyScalar (reflect v hitNormal) bounceStrength;
          minBounceSpeed = 2.0;
          reflectedVelocity =
            (if lengthV reflectedVelocity < minBounceSpeed
             then multiplyScalar (normalizeV reflectedVelocity) minBounceSpeed
             else reflectedVelocity)
      in \<lparr>velocity = reflectedVelocity, force = lengthV reflectedVelocity,
          direction = normalizeV reflectedVelocity\<rparr>)"

section \<open>Notions of the specification\<close>

text \<open>
  The specification speaks of a direction rotated by 45 degrees about the vertical axis
  and of the first of three probes that finds something. Both are written down here as
  the specification words them; the code is compared with them below.
\<close>

definition rotateAboutY :: "Vector3 \<Rightarrow> real \<Rightarrow> Vector3" where
  \<comment> \<open>rotation by the angle \<open>a\<close> about the vertical axis, counter-clockwise seen from above\<close>
  "rotateAboutY v a =
     Vector3 (vx v * cos a + vz v * sin a) (vy v) (vz v * cos a - vx v * sin a)"

definition firstProbeHit ::
  "hit_record option \<Rightarrow> hit_record option \<Rightarrow> hit_record option \<Rightarrow> multi_hit_record option" where
  \<comment> \<open>the first of three probe results that is not \<open>None\<close>, with its position as index\<close>
  "firstProbeHit p0 p1 p2 =
     (case p0 of
        Some c \<Rightarrow> Some (withDirectionIndex c 0)
      | None \<Rightarrow>
          (case p1 of
             Some c \<Rightarrow> Some (withDirectionIndex c 1)
           | None \<Rightarrow>
               (case p2 of
                  Some c \<Rightarrow> Some (withDirectionIndex c 2)
                | None \<Rightarrow> None)))"

section \<open>Example data\<close>

definition wallHit :: intersection where
  "wallHit = \<lparr>hit_distance = 1, hit_point = Vector3 0 0.5 (-1), hit_face = Some (Face (Vector3 0 0 1)),
              hit_object = Object3D ''block wall'' []\<rparr>"

definition roadHit :: intersection where
  "roadHit = \<lparr>hit_distance = 1, hit_point = Vector3 0 0.5 (-1), hit_face = Some (Face (Vector3 0 0 1)),
              hit_object = Object3D ''ground'' []\<rparr>"

definition sceneryHit :: intersection where
  "sceneryHit = \<lparr>hit_distance = 1, hit_point = Vector3 0 0.5 (-1), hit_face = None,
              hit_object = Object3D ''not collision'' []\<rparr>"

definition dirtHit :: "string \<Rightarrow> real \<Rightarrow> intersection" where
  "dirtHit nm height = \<lparr>hit_distance = 5 - height, hit_point = Vector3 0 height 0, hit_face = None,
              hit_object = Object3D nm []\<rparr>"

definition mockWheel :: wheel where
  "mockWheel = \<lparr>position_y = 0, isOnDirt = False\<rparr>"

definition groundHit :: "real \<Rightarrow> real \<Rightarrow> intersection" where
  "groundHit d height = \<lparr>hit_distance = d, hit_point = Vector3 0 height 0,
              hit_face = Some (Face (Vector3 0 1 0)), hit_object = Object3D ''ground'' []\<rparr>"

definition straightTrack :: spatial_query where
  \<comment> \<open>a strip of ground along the plane \<open>x = 0\<close>, seen only by downward rays over it\<close>
  "straightTrack r objs recursive =
     (if ray_direction r = Vector3 0 (-1) 0 \<and> vx (ray_origin r) = 0
      then [\<lparr>hit_distance = 2, hit_point = Vector3 0 0 (vz (ray_origin r)),
             hit_face = Some (Face (Vector3 0 1 0)), hit_object = Object3D ''ground'' []\<rparr>]
      else [])"

section \<open>Auxiliary facts\<close>

lemma str_includes_iff: "str_includes s sub \<longleftrightarrow> (\<exists>pre post. s = pre @ sub @ post)"
proof (induction s)
  case Nil
  then show ?case by auto
next
  case (Cons c cs)
  show ?case
  proof
    assume "str_includes (c # cs) sub"
    then consider "prefix sub (c # cs)" | "str_includes cs sub" by auto
    then show "\<exists>pre post. c # cs = pre @ sub @ post"
    proof cases
      case 1
      then obtain post where "c # cs = sub @ post" by (auto simp: prefix_def)
      then have "c # cs = [] @ sub @ post" by simp
      then show ?thesis by blast
    next
      case 2
      with Cons.IH obtain pre post where "cs = pre @ sub @ post" by blast
      then have "c # cs = (c # pre) @ sub @ post" by simp
      then show ?thesis by blast
    qed
  next
    assume "\<exists>pre post. c # cs = pre @ sub @ post"
    then obtain pre post where e: "c # cs = pre @ sub @ post" by blast
    show "str_includes (c # cs) sub"
    proof (cases pre)
      case Nil
      with e have "prefix sub (c # cs)" by (simp add: prefix_def)
      then show ?thesis by simp
    next
      case (Cons p ps)
      with e have "cs = ps @ sub @ post" by simp
      with Cons.IH have "str_includes cs sub" by blast
      then show ?thesis by simp
    qed
  qed
qed


lemma lengthV_axis_z: "lengthV (Vector3 0 0 c) = \<bar>c\<bar>"
  by (simp add: lengthV_def)

lemma lengthV_nonneg: "0 \<le> lengthV v"
  by (simp add: lengthV_def)

lemma lengthV_zero_iff: "lengthV v = 0 \<longleftrightarrow> v = Vector3 0 0 0"
proof (cases v)
  case (Vector3 a b c)
  have "a * a + b * b + c * c = 0 \<longleftrightarrow> a = 0 \<and> b = 0 \<and> c = 0"
    by (metis (no_types) add_nonneg_eq_0_iff mult_eq_0_iff zero_le_square add_nonneg_nonneg)
  with Vector3 show ?thesis by (simp add: lengthV_def)
qed

lemma lengthV_multiplyScalar: "lengthV (multiplyScalar v c) = \<bar>c\<bar> * lengthV v"
proof -
  have "vx v * c * (vx v * c) + vy v * c * (vy v * c) + vz v * c * (vz v * c)
          = (c * c) * (vx v * vx v + vy v * vy v + vz v * vz v)"
    by (simp add: algebra_simps)
  then show ?thesis
    by (simp add: lengthV_def multiplyScalar_def real_sqrt_mult)
qed

lemma lengthV_normalize: "lengthV v \<noteq> 0 \<Longrightarrow> lengthV (normalizeV v) = 1"
  using lengthV_nonneg [of v]
  by (simp add: normalizeV_def divideScalar_def lengthV_multiplyScalar)

lemma multiplyScalar_twice: "multiplyScalar (multiplyScalar v a) b = multiplyScalar v (a * b)"
  by (simp add: multiplyScalar_def algebra_simps)

lemma multiplyScalar_one: "multiplyScalar v 1 = v"
  by (cases v) (simp add: multiplyScalar_def)

lemma normalize_multiplyScalar_pos:
  assumes "0 < c"
  shows "normalizeV (multiplyScalar v c) = normalizeV v"
proof (cases "lengthV v = 0")
  case True
  then have "v = Vector3 0 0 0" by (simp add: lengthV_zero_iff)
  then show ?thesis by (simp add: normalizeV_def divideScalar_def multiplyScalar_def lengthV_def)
next
  case False
  with assms have "lengthV (multiplyScalar v c) \<noteq> 0"
    by (simp add: lengthV_multiplyScalar)
  with False assms show ?thesis
    by (simp add: normalizeV_def divideScalar_def multiplyScalar_twice lengthV_multiplyScalar)
qed

lemma normalize_of_unit: "lengthV u = 1 \<Longrightarrow> normalizeV u = u"
  by (simp add: normalizeV_def divideScalar_def multiplyScalar_one)

lemma str_includes_nonempty: "str_includes nm sub \<Longrightarrow> sub \<noteq> [] \<Longrightarrow> nm \<noteq> []"
  by (cases nm) auto

lemma isGroundName_isCollisionName: "isGroundName nm \<Longrightarrow> isCollisionName nm"
  by (simp add: isGroundName_def isCollisionName_def)

lemma applyAxisAngle_vertical: "applyAxisAngle v (Vector3 0 1 0) a = rotateAboutY v a"
proof -
  have s: "sin a = 2 * sin (a / 2) * cos (a / 2)"
    using sin_double [of "a / 2"] by simp
  have c: "cos a = 1 - 2 * (sin (a / 2) * sin (a / 2))"
    using cos_double_sin [of "a / 2"] by (simp add: power2_eq_square)
  show ?thesis
    by (simp add: applyAxisAngle_def setFromAxisAngle_def applyQuaternion_def rotateAboutY_def
        Let_def s c algebra_simps)
qed

lemma multiProbe_first:
  "multiProbe probe pos vel scene =
     (case probe pos (multiplyScalar (normalizeV vel) (lengthV vel)) scene of
        Some c \<Rightarrow> Some (withDirectionIndex c 0)
      | None \<Rightarrow>
          (case probe pos (multiplyScalar (rotateAboutY (normalizeV vel) (pi / 4)) (lengthV vel)) scene of
             Some c \<Rightarrow> Some (withDirectionIndex c 1)
           | None \<Rightarrow>
               (case probe pos (multiplyScalar (rotateAboutY (normalizeV vel) (- (pi / 4))) (lengthV vel)) scene of
                  Some c \<Rightarrow> Some (withDirectionIndex c 2)
                | None \<Rightarrow> None)))"
  by (simp add: multiProbe_def Let_def applyAxisAngle_vertical numeral_2_eq_2 split: option.splits)

lemma rot45: "rotateAboutY (Vector3 0 0 (-1)) (pi / 4) = Vector3 (- (sqrt 2 / 2)) 0 (- (sqrt 2 / 2))"
  by (simp add: rotateAboutY_def cos_45 sin_45)

lemma len45: "lengthV (Vector3 (- (sqrt 2 / 2)) 0 (- (sqrt 2 / 2))) = 1"
  by (simp add: lengthV_def)

section \<open>Bounce response: properties\<close>

text \<open>
  C10. The bounce response does not depend on the hit point: two calls that differ only
  in \<open>hitPoint\<close> return the same response.
\<close>

theorem bounce_independent_of_hitPoint:
  "calculateBounceResponse p1 hitNormal v bounceStrength
     = calculateBounceResponse p2 hitNormal v bounceStrength"
  by (simp add: calculateBounceResponse_def)

text \<open>
  The three fields of a response always agree: the force is the magnitude of the returned
  velocity and the direction is that velocity normalised.
\<close>

lemma bounce_fields_consistent:
  "force (calculateBounceResponse p n v s) = lengthV (velocity (calculateBounceResponse p n v s))
   \<and> direction (calculateBounceResponse p n v s)
       = normalizeV (velocity (calculateBounceResponse p n v s))"
  by (simp add: calculateBounceResponse_def Let_def)

text \<open>
  C7. When the reflection \<open>v - 2 (v \<cdot> n) n\<close> scaled by the bounce strength has magnitude
  at least 2, the response carries exactly that vector as velocity, its magnitude as
  force and its normalisation as direction, and the three fields agree with each other.
  (The normal need not be of unit length for this.)
\<close>

theorem bounce_keeps_fast_reflection:
  assumes r: "r = multiplyScalar (subV v (multiplyScalar n (2 * dot v n))) s"
    and fast: "2 \<le> lengthV r"
  shows "velocity (calculateBounceResponse p n v s) = r
       \<and> force (calculateBounceResponse p n v s) = lengthV r
       \<and> direction (calculateBounceResponse p n v s) = normalizeV r
       \<and> force (calculateBounceResponse p n v s)
           = lengthV (velocity (calculateBounceResponse p n v s))
       \<and> direction (calculateBounceResponse p n v s)
           = normalizeV (velocity (calculateBounceResponse p n v s))"
  using assms by (simp add: calculateBounceResponse_def Let_def reflect_def)

theorem bounce_keeps_fast_reflection_witness:
  "Vector3 0 0 8 = multiplyScalar (subV (Vector3 0 0 (-10))
       (multiplyScalar (Vector3 0 0 1) (2 * dot (Vector3 0 0 (-10)) (Vector3 0 0 1)))) 0.8
   \<and> 2 \<le> lengthV (Vector3 0 0 8)
   \<and> calculateBounceResponse (Vector3 0 0 (-5)) (Vector3 0 0 1) (Vector3 0 0 (-10)) 0.8
       = \<lparr>velocity = Vector3 0 0 8, force = 8, direction = Vector3 0 0 1\<rparr>"
proof -
  have r: "Vector3 0 0 8 = multiplyScalar (subV (Vector3 0 0 (-10))
       (multiplyScalar (Vector3 0 0 1) (2 * dot (Vector3 0 0 (-10)) (Vector3 0 0 1)))) 0.8"
    by (simp add: multiplyScalar_def subV_def dot_def)
  have f: "2 \<le> lengthV (Vector3 0 0 8)" by (simp add: lengthV_axis_z)
  have n: "normalizeV (Vector3 0 0 8) = Vector3 0 0 1"
    by (simp add: normalizeV_def divideScalar_def multiplyScalar_def lengthV_axis_z)
  note t = bounce_keeps_fast_reflection
    [where r = "Vector3 0 0 8" and v = "Vector3 0 0 (-10)" and n = "Vector3 0 0 1"
       and s = "0.8" and p = "Vector3 0 0 (-5)"]
  from t [OF r f] r [symmetric] f n show ?thesis
    by (cases "calculateBounceResponse (Vector3 0 0 (-5)) (Vector3 0 0 1) (Vector3 0 0 (-10)) 0.8")
       (simp add: lengthV_axis_z)
qed

text \<open>
  C3 (as amended). When the reflected and scaled velocity \<open>r\<close> has magnitude below 2,
  the returned velocity is \<open>r\<close> normalised and then multiplied by the minimum bounce speed
  2 (\<^verbatim>\<open>normalize().multiplyScalar(minBounceSpeed)\<close>), the force is the magnitude of that
  velocity and the direction is that velocity normalised.
\<close>

theorem bounce_rescales_slow_reflection:
  assumes r: "r = multiplyScalar (reflect v n) s"
    and slow: "lengthV r < 2"
  shows "velocity (calculateBounceResponse p n v s) = multiplyScalar (normalizeV r) 2
       \<and> force (calculateBounceResponse p n v s) = lengthV (multiplyScalar (normalizeV r) 2)
       \<and> direction (calculateBounceResponse p n v s)
           = normalizeV (multiplyScalar (normalizeV r) 2)"
  using slow by (simp add: calculateBounceResponse_def Let_def r [symmetric])

theorem bounce_rescales_slow_reflection_witness:
  "Vector3 0 0 0.8 = multiplyScalar (reflect (Vector3 0 0 (-1)) (Vector3 0 0 1)) 0.8
   \<and> lengthV (Vector3 0 0 0.8) < 2
   \<and> calculateBounceResponse (Vector3 0 0 (-5)) (Vector3 0 0 1) (Vector3 0 0 (-1)) 0.8
       = \<lparr>velocity = Vector3 0 0 2, force = 2, direction = Vector3 0 0 1\<rparr>"
proof -
  have r: "Vector3 0 0 0.8 = multiplyScalar (reflect (Vector3 0 0 (-1)) (Vector3 0 0 1)) 0.8"
    by (simp add: reflect_def multiplyScalar_def subV_def dot_def)
  have s: "lengthV (Vector3 0 0 0.8) < 2" by (simp add: lengthV_axis_z)
  have n: "normalizeV (Vector3 0 0 0.8) = Vector3 0 0 1"
    by (simp add: normalizeV_def divideScalar_def multiplyScalar_def lengthV_axis_z)
  have m: "normalizeV (Vector3 0 0 2) = Vector3 0 0 1"
    by (simp add: normalizeV_def divideScalar_def multiplyScalar_def lengthV_axis_z)
  note t = bounce_rescales_slow_reflection
    [where r = "Vector3 0 0 0.8" and v = "Vector3 0 0 (-1)" and n = "Vector3 0 0 1"
       and s = "0.8" and p = "Vector3 0 0 (-5)"]
  from t [OF r s] r [symmetric] s n m show ?thesis
    by (cases "calculateBounceResponse (Vector3 0 0 (-5)) (Vector3 0 0 1) (Vector3 0 0 (-1)) 0.8")
       (simp add: multiplyScalar_def lengthV_axis_z)
qed

text \<open>
  In exact arithmetic, and for a reflection that is not the zero vector, that velocity has
  magnitude 2 and the direction of \<open>r\<close>. This is a fact of the idealisation by real
  numbers only: the program computes in IEEE doubles, where \<^verbatim>\<open>normalize\<close>,
  \<^verbatim>\<open>multiplyScalar\<close> and \<^verbatim>\<open>length\<close> each round, and for the velocity (1, 1, 1), the normal
  (0, 1, 0) and the bounce strength 0.8 the force it returns is 1.9999999999999993.
\<close>

lemma bounce_boost_in_exact_arithmetic:
  assumes r: "r = multiplyScalar (reflect v n) s"
    and slow: "lengthV r < 2"
    and nonzero: "lengthV r \<noteq> 0"
  shows "lengthV (velocity (calculateBounceResponse p n v s)) = 2
       \<and> force (calculateBounceResponse p n v s) = 2
       \<and> velocity (calculateBounceResponse p n v s) = multiplyScalar (normalizeV r) 2
       \<and> direction (calculateBounceResponse p n v s) = normalizeV r
       \<and> (0 < s \<longrightarrow> direction (calculateBounceResponse p n v s) = normalizeV (reflect v n))"
proof -
  have u: "lengthV (normalizeV r) = 1"
    using nonzero by (rule lengthV_normalize)
  have l: "lengthV (multiplyScalar (normalizeV r) 2) = 2"
    by (simp add: lengthV_multiplyScalar u)
  have d: "normalizeV (multiplyScalar (normalizeV r) 2) = normalizeV r"
    by (simp add: normalize_multiplyScalar_pos normalize_of_unit u)
  have b: "calculateBounceResponse p n v s
             = \<lparr>velocity = multiplyScalar (normalizeV r) 2, force = 2, direction = normalizeV r\<rparr>"
    using slow l d by (simp add: calculateBounceResponse_def Let_def r [symmetric])
  have "normalizeV r = normalizeV (reflect v n)" if "0 < s"
    using that by (simp add: r normalize_multiplyScalar_pos)
  then show ?thesis
    by (simp add: b l)
qed

text \<open>
  C3 as stated asks for a magnitude of exactly 2 whenever the reflected and scaled
  velocity is shorter than 2. That covers the zero reflection (a kart at rest, or a bounce
  strength of 0): normalising the zero vector leaves it zero, so the returned velocity has
  magnitude 0, not 2.
\<close>

theorem bounce_zero_reflection_counterexample:
  "lengthV (multiplyScalar (reflect (Vector3 0 0 0) (Vector3 0 0 1)) 0.8) < 2
   \<and> lengthV (velocity (calculateBounceResponse (Vector3 0 0 (-5)) (Vector3 0 0 1) (Vector3 0 0 0) 0.8)) \<noteq> 2"
  by (simp add: calculateBounceResponse_def Let_def reflect_def multiplyScalar_def subV_def dot_def
      lengthV_axis_z normalizeV_def divideScalar_def)

section \<open>Collision probe: properties\<close>

text \<open>
  C8. A velocity of magnitude below 0.1 gives no heading to probe: the probe returns
  nothing, whatever the scene holds. Both variants of the probe have the guard.
\<close>

theorem probe_none_below_threshold:
  assumes "lengthV vel < 0.1"
  shows "checkBoundaryCollision io pos vel scene lookAhead = None
       \<and> checkBoundaryCollision_groundOnly io pos vel scene lookAhead = None"
  using assms by (simp add: checkBoundaryCollision_def checkBoundaryCollision_groundOnly_def)

theorem probe_none_below_threshold_witness:
  "lengthV (Vector3 0 0 (1/20)) < 0.1
   \<and> checkBoundaryCollision (fixedIntersections [\<lparr>hit_distance = 1, hit_point = Vector3 0 0.5 1, hit_face = None, hit_object = Object3D ''wall'' []\<rparr>]) (Vector3 0 0 0) (Vector3 0 0 (1/20)) (Object3D ''scene'' [Object3D ''wall'' []]) 2 = None
   \<and> checkBoundaryCollision_groundOnly (fixedIntersections [\<lparr>hit_distance = 1, hit_point = Vector3 0 0.5 1, hit_face = None, hit_object = Object3D ''wall'' []\<rparr>]) (Vector3 0 0 0) (Vector3 0 0 (1/20)) (Object3D ''scene'' [Object3D ''wall'' []]) 2 = None"
proof -
  have h: "lengthV (Vector3 0 0 (1/20)) < 0.1" by (simp add: lengthV_axis_z)
  from probe_none_below_threshold[OF h] h show ?thesis by blast
qed

text \<open>
  C1 (as amended). In the ground+wall variant, when the probe is fast enough (speed at least 0.1) and
  the nearest intersection of the forward ray (from the position lifted by 0.5, along the
  normalised velocity, no farther than the look-ahead distance) is an object whose name
  contains "ground", "wall", "barrier" or "block", the probe returns a hit record with
  that hit's point and distance, the face normal when the hit has a face and the negated
  probe direction otherwise, and the type \<^verbatim>\<open>track_surface\<close> for a name containing
  "ground" and \<^verbatim>\<open>wall\<close> otherwise.
\<close>

theorem probe_reports_nearest_boundary_hit:
  assumes speed: "0.1 \<le> lengthV vel"
    and nearest: "io \<lparr>ray_origin = Vector3 (vx pos) (vy pos + 0.5) (vz pos),
                      ray_direction = normalizeV vel, far = lookAhead, firstHitOnly = True\<rparr>
                    (children scene) True = h # rest"
    and nm: "nm = name (hit_object h)"
    and boundary: "str_includes nm ''ground'' \<or> str_includes nm ''wall''
                   \<or> str_includes nm ''barrier'' \<or> str_includes nm ''block''"
  shows "checkBoundaryCollision io pos vel scene lookAhead =
           Some \<lparr>hit = True, point = hit_point h,
                 normal = (case hit_face h of Some f \<Rightarrow> face_normal f
                           | None \<Rightarrow> negate (normalizeV vel)),
                 distance = hit_distance h,
                 type = (if str_includes nm ''ground'' then ''track_surface'' else ''wall'')\<rparr>"
proof -
  from boundary have "nm \<noteq> []"
    by (auto dest: str_includes_nonempty)
  with boundary nm have "isCollisionName (name (hit_object h))"
    by (simp add: isCollisionName_def)
  with speed nearest nm show ?thesis
    by (simp add: checkBoundaryCollision_def Let_def)
qed

theorem probe_reports_nearest_boundary_hit_witness:
  "0.1 \<le> lengthV (Vector3 0 0 (-10))
   \<and> fixedIntersections [wallHit]
        \<lparr>ray_origin = Vector3 (vx (Vector3 0 0 0)) (vy (Vector3 0 0 0) + 0.5) (vz (Vector3 0 0 0)),
         ray_direction = normalizeV (Vector3 0 0 (-10)), far = 2, firstHitOnly = True\<rparr>
        (children (Object3D ''scene'' [Object3D ''block wall'' []])) True = wallHit # []
   \<and> str_includes ''block wall'' ''wall''
   \<and> checkBoundaryCollision (fixedIntersections [wallHit]) (Vector3 0 0 0) (Vector3 0 0 (-10))
        (Object3D ''scene'' [Object3D ''block wall'' []]) 2
      = Some \<lparr>hit = True, point = Vector3 0 0.5 (-1), normal = Vector3 0 0 1, distance = 1,
              type = ''wall''\<rparr>"
proof -
  have s: "0.1 \<le> lengthV (Vector3 0 0 (-10))" by (simp add: lengthV_axis_z)
  have n: "fixedIntersections [wallHit]
        \<lparr>ray_origin = Vector3 (vx (Vector3 0 0 0)) (vy (Vector3 0 0 0) + 0.5) (vz (Vector3 0 0 0)),
         ray_direction = normalizeV (Vector3 0 0 (-10)), far = 2, firstHitOnly = True\<rparr>
        (children (Object3D ''scene'' [Object3D ''block wall'' []])) True = wallHit # []"
    by (simp add: fixedIntersections_def)
  have m: "''block wall'' = name (hit_object wallHit)" by (simp add: wallHit_def)
  have b: "str_includes ''block wall'' ''ground'' \<or> str_includes ''block wall'' ''wall''
           \<or> str_includes ''block wall'' ''barrier'' \<or> str_includes ''block wall'' ''block''"
    by simp
  have w: "str_includes ''block wall'' ''wall''" by simp
  have g: "\<not> str_includes ''block wall'' ''ground''" by simp
  note t = probe_reports_nearest_boundary_hit
    [where io = "fixedIntersections [wallHit]" and pos = "Vector3 0 0 0"
       and vel = "Vector3 0 0 (-10)" and scene = "Object3D ''scene'' [Object3D ''block wall'' []]"
       and lookAhead = 2 and h = wallHit and rest = "[]" and nm = "''block wall''"]
  from t [OF s n m b] s n w g show ?thesis
    by (simp add: wallHit_def)
qed

text \<open>
  The ground-only variant has no such branch: whatever it returns is a synthesised
  \<^verbatim>\<open>track_edge\<close> record.
\<close>

lemma groundOnly_reports_only_track_edge:
  assumes "checkBoundaryCollision_groundOnly io pos vel scene lookAhead = Some r"
  shows "r = edgeRecord pos (normalizeV vel)"
  using assms
  by (simp add: checkBoundaryCollision_groundOnly_def Let_def split: if_splits)

text \<open>
  C1 as stated is about \<^verbatim>\<open>checkBoundaryCollision\<close> of either file. In the ground-only
  variant a forward ray whose nearest intersection is a "ground" object makes the probe
  return nothing, and one whose nearest intersection is a "block wall" object, with the
  downward ray meeting no ground, makes it return a \<^verbatim>\<open>track_edge\<close> record at distance 0.5
  instead of a \<^verbatim>\<open>wall\<close> record at the hit.
\<close>

theorem probe_groundOnly_surface_counterexample:
  "0.1 \<le> lengthV (Vector3 0 0 (-10))
   \<and> fixedIntersections [roadHit]
        \<lparr>ray_origin = Vector3 0 0.5 0, ray_direction = normalizeV (Vector3 0 0 (-10)), far = 2,
         firstHitOnly = True\<rparr>
        (children (Object3D ''scene'' [Object3D ''ground'' []])) True = [roadHit]
   \<and> str_includes (name (hit_object roadHit)) ''ground''
   \<and> checkBoundaryCollision_groundOnly (fixedIntersections [roadHit]) (Vector3 0 0 0)
        (Vector3 0 0 (-10)) (Object3D ''scene'' [Object3D ''ground'' []]) 2 = None
   \<and> fixedIntersections [wallHit]
        \<lparr>ray_origin = Vector3 0 0.5 0, ray_direction = normalizeV (Vector3 0 0 (-10)), far = 2,
         firstHitOnly = True\<rparr>
        (children (Object3D ''scene'' [Object3D ''block wall'' []])) True = [wallHit]
   \<and> str_includes (name (hit_object wallHit)) ''wall''
   \<and> checkBoundaryCollision_groundOnly (fixedIntersections [wallHit]) (Vector3 0 0 0)
        (Vector3 0 0 (-10)) (Object3D ''scene'' [Object3D ''block wall'' []]) 2
       = Some \<lparr>hit = True, point = Vector3 0 0 (-0.5), normal = Vector3 0 0 1, distance = 0.5,
               type = ''track_edge''\<rparr>"
proof -
  have n: "normalizeV (Vector3 0 0 (-10)) = Vector3 0 0 (-1)"
    by (simp add: normalizeV_def divideScalar_def multiplyScalar_def lengthV_axis_z)
  show ?thesis
    by (simp add: n lengthV_axis_z fixedIntersections_def roadHit_def wallHit_def
        checkBoundaryCollision_groundOnly_def Let_def isGroundName_def edgeRecord_def
        addV_def multiplyScalar_def negate_def)
qed

text \<open>
  C2 (as amended). For a velocity of magnitude at least 0.1, when the scene holds no
  object with a boundary name (and the ray caster reports only objects of the scene), the
  probe returns a \<^verbatim>\<open>track_edge\<close> record at distance 0.5, at the position advanced by half
  the normalised velocity, with the negated normalised velocity as normal. Both variants.
\<close>

theorem probe_track_edge_without_boundaries:
  assumes speed: "0.1 \<le> lengthV vel"
    and sound: "\<forall>r. \<forall>h \<in> set (io r (children scene) True). hit_object h \<in> set (scene_objects scene)"
    and unbounded: "\<forall>ob \<in> set (scene_objects scene). \<not> isCollisionName (name ob)"
  shows "checkBoundaryCollision io pos vel scene lookAhead =
           Some \<lparr>hit = True, point = addV pos (multiplyScalar (normalizeV vel) 0.5),
                 normal = negate (normalizeV vel), distance = 0.5, type = ''track_edge''\<rparr>
       \<and> checkBoundaryCollision_groundOnly io pos vel scene lookAhead =
           Some \<lparr>hit = True, point = addV pos (multiplyScalar (normalizeV vel) 0.5),
                 normal = negate (normalizeV vel), distance = 0.5, type = ''track_edge''\<rparr>"
proof -
  have c: "filter (\<lambda>h. isCollisionName (name (hit_object h))) (io r (children scene) True) = []" for r
    using sound unbounded by (auto simp: filter_empty_conv)
  have g: "filter (\<lambda>h. isGroundName (name (hit_object h))) (io r (children scene) True) = []" for r
    using sound unbounded by (auto simp: filter_empty_conv dest: isGroundName_isCollisionName)
  from speed show ?thesis
    by (simp add: checkBoundaryCollision_def checkBoundaryCollision_groundOnly_def Let_def c g
        edgeRecord_def)
qed

theorem probe_track_edge_without_boundaries_witness:
  "0.1 \<le> lengthV (Vector3 0 0 (-1))
   \<and> scene_objects (Object3D ''scene'' [Object3D ''not collision'' []]) = [hit_object sceneryHit]
   \<and> \<not> isCollisionName (name (hit_object sceneryHit))
   \<and> checkBoundaryCollision (fixedIntersections [sceneryHit]) (Vector3 0 0 0) (Vector3 0 0 (-1))
        (Object3D ''scene'' [Object3D ''not collision'' []]) 2
      = Some \<lparr>hit = True, point = Vector3 0 0 (-0.5), normal = Vector3 0 0 1, distance = 0.5,
              type = ''track_edge''\<rparr>
   \<and> checkBoundaryCollision_groundOnly (fixedIntersections [sceneryHit]) (Vector3 0 0 0) (Vector3 0 0 (-1))
        (Object3D ''scene'' [Object3D ''not collision'' []]) 2
      = Some \<lparr>hit = True, point = Vector3 0 0 (-0.5), normal = Vector3 0 0 1, distance = 0.5,
              type = ''track_edge''\<rparr>"
proof -
  have s: "0.1 \<le> lengthV (Vector3 0 0 (-1))" by (simp add: lengthV_axis_z)
  have a: "\<forall>r. \<forall>h \<in> set (fixedIntersections [sceneryHit] r (children (Object3D ''scene'' [Object3D ''not collision'' []])) True).
         hit_object h \<in> set (scene_objects (Object3D ''scene'' [Object3D ''not collision'' []]))"
    by (simp add: fixedIntersections_def sceneryHit_def scene_objects_def)
  have u: "\<forall>ob \<in> set (scene_objects (Object3D ''scene'' [Object3D ''not collision'' []])). \<not> isCollisionName (name ob)"
    by (simp add: scene_objects_def isCollisionName_def)
  have n: "normalizeV (Vector3 0 0 (-1)) = Vector3 0 0 (-1)"
    by (simp add: normalizeV_def divideScalar_def multiplyScalar_def lengthV_axis_z)
  note t = probe_track_edge_without_boundaries
    [where io = "fixedIntersections [sceneryHit]" and pos = "Vector3 0 0 0"
       and vel = "Vector3 0 0 (-1)" and scene = "Object3D ''scene'' [Object3D ''not collision'' []]"
       and lookAhead = 2]
  have o: "scene_objects (Object3D ''scene'' [Object3D ''not collision'' []]) = [hit_object sceneryHit]"
    by (simp add: scene_objects_def sceneryHit_def)
  have c: "\<not> isCollisionName (name (hit_object sceneryHit))"
    by (simp add: sceneryHit_def isCollisionName_def)
  from t [OF s a u] s o c show ?thesis
    by (simp add: n addV_def multiplyScalar_def negate_def)
qed

text \<open>
  C2 as stated asks this of every nonzero velocity. A velocity of magnitude 0.05 in an
  empty scene is nonzero, and the probe returns nothing for it.
\<close>

theorem probe_track_edge_slow_counterexample:
  "lengthV (Vector3 0 0 (1/20)) \<noteq> 0
   \<and> scene_objects (Object3D ''scene'' []) = []
   \<and> checkBoundaryCollision noIntersections (Vector3 0 0 0) (Vector3 0 0 (1/20)) (Object3D ''scene'' []) 2 = None
   \<and> checkBoundaryCollision_groundOnly noIntersections (Vector3 0 0 0) (Vector3 0 0 (1/20)) (Object3D ''scene'' []) 2 = None"
  by (simp add: lengthV_axis_z scene_objects_def checkBoundaryCollision_def
      checkBoundaryCollision_groundOnly_def)

section \<open>Track containment: properties\<close>

text \<open>
  C6. The containment check casts a ray straight down from the position lifted by 2, no
  farther than \<open>maxDistance + 2\<close>, and keeps the boundary-classified hits (ground, wall,
  barrier or block names in the ground+wall variant, ground names in the ground-only
  variant). It returns true exactly when there is such a hit and the first of them lies
  within \<open>maxDistance\<close> of the position's height; a hit at exactly \<open>maxDistance\<close> counts,
  and without a boundary-classified hit the result is false.
\<close>

theorem on_track_iff_first_boundary_hit_in_reach:
  assumes u: "hitsU = filter (\<lambda>h. isCollisionName (name (hit_object h)))
                 (io \<lparr>ray_origin = Vector3 (vx pos) (vy pos + 2) (vz pos),
                      ray_direction = Vector3 0 (-1) 0, far = maxDistance + 2,
                      firstHitOnly = True\<rparr> (children scene) True)"
    and g: "hitsG = filter (\<lambda>h. isGroundName (name (hit_object h)))
                 (io \<lparr>ray_origin = Vector3 (vx pos) (vy pos + 2) (vz pos),
                      ray_direction = Vector3 0 (-1) 0, far = maxDistance + 2,
                      firstHitOnly = True\<rparr> (children scene) True)"
  shows "(isPositionOnTrack io pos scene maxDistance \<longleftrightarrow>
            (\<exists>h rest. hitsU = h # rest \<and> \<bar>vy pos - vy (hit_point h)\<bar> \<le> maxDistance))
       \<and> (\<forall>h rest. hitsU = h # rest \<and> \<bar>vy pos - vy (hit_point h)\<bar> = maxDistance
             \<longrightarrow> isPositionOnTrack io pos scene maxDistance)
       \<and> (hitsU = [] \<longrightarrow> \<not> isPositionOnTrack io pos scene maxDistance)
       \<and> (isPositionOnTrack_groundOnly io pos scene maxDistance \<longleftrightarrow>
            (\<exists>h rest. hitsG = h # rest \<and> \<bar>vy pos - vy (hit_point h)\<bar> \<le> maxDistance))
       \<and> (\<forall>h rest. hitsG = h # rest \<and> \<bar>vy pos - vy (hit_point h)\<bar> = maxDistance
             \<longrightarrow> isPositionOnTrack_groundOnly io pos scene maxDistance)
       \<and> (hitsG = [] \<longrightarrow> \<not> isPositionOnTrack_groundOnly io pos scene maxDistance)"
proof -
  have a: "isPositionOnTrack io pos scene maxDistance \<longleftrightarrow>
            (\<exists>h rest. hitsU = h # rest \<and> \<bar>vy pos - vy (hit_point h)\<bar> \<le> maxDistance)"
    by (cases hitsU) (simp_all add: isPositionOnTrack_def Let_def u [symmetric])
  have b: "isPositionOnTrack_groundOnly io pos scene maxDistance \<longleftrightarrow>
            (\<exists>h rest. hitsG = h # rest \<and> \<bar>vy pos - vy (hit_point h)\<bar> \<le> maxDistance)"
    by (cases hitsG) (simp_all add: isPositionOnTrack_groundOnly_def Let_def g [symmetric])
  from a b show ?thesis by auto
qed

theorem on_track_iff_first_boundary_hit_in_reach_witness:
  "isPositionOnTrack (fixedIntersections [groundHit 5 (-3)]) (Vector3 0 0 0) (Object3D ''scene'' [Object3D ''ground'' []]) 3
   \<and> isPositionOnTrack_groundOnly (fixedIntersections [groundHit 5 (-3)]) (Vector3 0 0 0) (Object3D ''scene'' [Object3D ''ground'' []]) 3
   \<and> \<not> isPositionOnTrack noIntersections (Vector3 0 0 0) (Object3D ''scene'' [Object3D ''ground'' []]) 3
   \<and> \<not> isPositionOnTrack_groundOnly noIntersections (Vector3 0 0 0) (Object3D ''scene'' [Object3D ''ground'' []]) 3"
proof -
  have u: "[groundHit 5 (-3)] = filter (\<lambda>h. isCollisionName (name (hit_object h)))
                 (fixedIntersections [groundHit 5 (-3)] \<lparr>ray_origin = Vector3 (vx (Vector3 0 0 0)) (vy (Vector3 0 0 0) + 2) (vz (Vector3 0 0 0)),
                      ray_direction = Vector3 0 (-1) 0, far = 3 + 2,
                      firstHitOnly = True\<rparr> (children (Object3D ''scene'' [Object3D ''ground'' []])) True)"
    by (simp add: fixedIntersections_def groundHit_def isCollisionName_def)
  have g: "[groundHit 5 (-3)] = filter (\<lambda>h. isGroundName (name (hit_object h)))
                 (fixedIntersections [groundHit 5 (-3)] \<lparr>ray_origin = Vector3 (vx (Vector3 0 0 0)) (vy (Vector3 0 0 0) + 2) (vz (Vector3 0 0 0)),
                      ray_direction = Vector3 0 (-1) 0, far = 3 + 2,
                      firstHitOnly = True\<rparr> (children (Object3D ''scene'' [Object3D ''ground'' []])) True)"
    by (simp add: fixedIntersections_def groundHit_def isGroundName_def)
  have e: "\<bar>vy (Vector3 0 0 0) - vy (hit_point (groundHit 5 (-3)))\<bar> = 3"
    by (simp add: groundHit_def)
  have u0: "[] = filter (\<lambda>h. isCollisionName (name (hit_object h)))
                 (noIntersections \<lparr>ray_origin = Vector3 (vx (Vector3 0 0 0)) (vy (Vector3 0 0 0) + 2) (vz (Vector3 0 0 0)),
                      ray_direction = Vector3 0 (-1) 0, far = 3 + 2,
                      firstHitOnly = True\<rparr> (children (Object3D ''scene'' [Object3D ''ground'' []])) True)"
    by (simp add: noIntersections_def)
  have g0: "[] = filter (\<lambda>h. isGroundName (name (hit_object h)))
                 (noIntersections \<lparr>ray_origin = Vector3 (vx (Vector3 0 0 0)) (vy (Vector3 0 0 0) + 2) (vz (Vector3 0 0 0)),
                      ray_direction = Vector3 0 (-1) 0, far = 3 + 2,
                      firstHitOnly = True\<rparr> (children (Object3D ''scene'' [Object3D ''ground'' []])) True)"
    by (simp add: noIntersections_def)
  note t = on_track_iff_first_boundary_hit_in_reach
    [where io = "fixedIntersections [groundHit 5 (-3)]" and pos = "Vector3 0 0 0" and maxDistance = 3
       and scene = "Object3D ''scene'' [Object3D ''ground'' []]"
       and hitsU = "[groundHit 5 (-3)]" and hitsG = "[groundHit 5 (-3)]"]
  note t0 = on_track_iff_first_boundary_hit_in_reach
    [where io = noIntersections and pos = "Vector3 0 0 0" and maxDistance = 3
       and scene = "Object3D ''scene'' [Object3D ''ground'' []]"
       and hitsU = "[]" and hitsG = "[]"]
  from t [OF u g] t0 [OF u0 g0] e show ?thesis by simp
qed

section \<open>Multi-directional probe: properties\<close>

text \<open>
  C5. The multi-directional probe returns the first result that is not \<open>None\<close> among the
  probes along the normalised velocity, that direction rotated by +45 degrees and by -45
  degrees about the vertical axis, in this order, each direction scaled to the magnitude
  of the velocity, with the index 0, 1 or 2 of the direction attached; it returns \<open>None\<close>
  exactly when all three probes do. Both variants.
\<close>

theorem multi_probe_returns_first_hit:
  assumes m: "m = lengthV vel" and d: "d = normalizeV vel"
    and p0: "p0 = checkBoundaryCollision io pos (multiplyScalar d m) scene 2"
    and p1: "p1 = checkBoundaryCollision io pos (multiplyScalar (rotateAboutY d (pi / 4)) m) scene 2"
    and p2: "p2 = checkBoundaryCollision io pos (multiplyScalar (rotateAboutY d (- (pi / 4))) m) scene 2"
    and q0: "q0 = checkBoundaryCollision_groundOnly io pos (multiplyScalar d m) scene 2"
    and q1: "q1 = checkBoundaryCollision_groundOnly io pos
                    (multiplyScalar (rotateAboutY d (pi / 4)) m) scene 2"
    and q2: "q2 = checkBoundaryCollision_groundOnly io pos
                    (multiplyScalar (rotateAboutY d (- (pi / 4))) m) scene 2"
  shows "checkMultiDirectionalCollision io pos vel scene = firstProbeHit p0 p1 p2
       \<and> (checkMultiDirectionalCollision io pos vel scene = None
            \<longleftrightarrow> p0 = None \<and> p1 = None \<and> p2 = None)
       \<and> checkMultiDirectionalCollision_groundOnly io pos vel scene = firstProbeHit q0 q1 q2
       \<and> (checkMultiDirectionalCollision_groundOnly io pos vel scene = None
            \<longleftrightarrow> q0 = None \<and> q1 = None \<and> q2 = None)"
proof -
  have a: "checkMultiDirectionalCollision io pos vel scene = firstProbeHit p0 p1 p2"
    by (simp add: checkMultiDirectionalCollision_def multiProbe_first firstProbeHit_def
        m d p0 p1 p2)
  have b: "checkMultiDirectionalCollision_groundOnly io pos vel scene = firstProbeHit q0 q1 q2"
    by (simp add: checkMultiDirectionalCollision_groundOnly_def multiProbe_first firstProbeHit_def
        m d q0 q1 q2)
  have n: "firstProbeHit x0 x1 x2 = None \<longleftrightarrow> x0 = None \<and> x1 = None \<and> x2 = None" for x0 x1 x2
    by (simp add: firstProbeHit_def split: option.splits)
  from a b n show ?thesis by simp
qed

theorem multi_probe_returns_first_hit_witness:
  "checkMultiDirectionalCollision straightTrack (Vector3 0 0 0) (Vector3 0 0 (-1)) (Object3D ''scene'' [Object3D ''ground'' []])
     = Some \<lparr>hit = True, point = Vector3 (- (sqrt 2 / 4)) 0 (- (sqrt 2 / 4)),
             normal = Vector3 (sqrt 2 / 2) 0 (sqrt 2 / 2), distance = 0.5,
             type = ''track_edge'', directionIndex = 1\<rparr>
   \<and> checkMultiDirectionalCollision_groundOnly straightTrack (Vector3 0 0 0) (Vector3 0 0 (-1)) (Object3D ''scene'' [Object3D ''ground'' []])
     = Some \<lparr>hit = True, point = Vector3 (- (sqrt 2 / 4)) 0 (- (sqrt 2 / 4)),
             normal = Vector3 (sqrt 2 / 2) 0 (sqrt 2 / 2), distance = 0.5,
             type = ''track_edge'', directionIndex = 1\<rparr>"
proof -
  let ?scene = "Object3D ''scene'' [Object3D ''ground'' []]"
  let ?side = "Vector3 (- (sqrt 2 / 2)) 0 (- (sqrt 2 / 2))"
  let ?edge = "\<lparr>hit = True, point = Vector3 (- (sqrt 2 / 4)) 0 (- (sqrt 2 / 4)),
             normal = Vector3 (sqrt 2 / 2) 0 (sqrt 2 / 2), distance = 0.5,
             type = ''track_edge''\<rparr>"
  have m: "1 = lengthV (Vector3 0 0 (-1))" by (simp add: lengthV_axis_z)
  have d: "Vector3 0 0 (-1) = normalizeV (Vector3 0 0 (-1))"
    by (simp add: normalizeV_def divideScalar_def multiplyScalar_def lengthV_axis_z)
  have n: "normalizeV ?side = ?side"
    by (simp add: normalize_of_unit len45)
  have p0: "None = checkBoundaryCollision straightTrack (Vector3 0 0 0)
              (multiplyScalar (Vector3 0 0 (-1)) 1) ?scene 2"
    by (simp add: multiplyScalar_one d [symmetric] m [symmetric] checkBoundaryCollision_def Let_def
        straightTrack_def addV_def multiplyScalar_def isCollisionName_def)
  have q0: "None = checkBoundaryCollision_groundOnly straightTrack (Vector3 0 0 0)
              (multiplyScalar (Vector3 0 0 (-1)) 1) ?scene 2"
    by (simp add: multiplyScalar_one d [symmetric] m [symmetric]
        checkBoundaryCollision_groundOnly_def Let_def
        straightTrack_def addV_def multiplyScalar_def isGroundName_def)
  have p1: "Some ?edge = checkBoundaryCollision straightTrack (Vector3 0 0 0)
              (multiplyScalar (rotateAboutY (Vector3 0 0 (-1)) (pi / 4)) 1) ?scene 2"
    by (simp add: rot45 multiplyScalar_one len45 n checkBoundaryCollision_def Let_def
        straightTrack_def addV_def multiplyScalar_def edgeRecord_def negate_def)
  have q1: "Some ?edge = checkBoundaryCollision_groundOnly straightTrack (Vector3 0 0 0)
              (multiplyScalar (rotateAboutY (Vector3 0 0 (-1)) (pi / 4)) 1) ?scene 2"
    by (simp add: rot45 multiplyScalar_one len45 n checkBoundaryCollision_groundOnly_def Let_def
        straightTrack_def addV_def multiplyScalar_def edgeRecord_def negate_def)
  note t = multi_probe_returns_first_hit
    [where io = straightTrack and pos = "Vector3 0 0 0" and vel = "Vector3 0 0 (-1)"
       and scene = ?scene and m = 1 and d = "Vector3 0 0 (-1)"
       and ?p0.0 = None and ?p1.0 = "Some ?edge" and ?q0.0 = None and ?q1.0 = "Some ?edge",
     OF m d p0 p1 refl q0 q1 refl]
  then show ?thesis
    by (simp add: firstProbeHit_def withDirectionIndex_def)
qed

section \<open>Ground contact of a wheel: properties\<close>

lemma getGroundPosition_on_hit:
  assumes "io \<lparr>ray_origin = wheelBase, ray_direction = Vector3 0 (-1) 0, far = 3,
                 firstHitOnly = True\<rparr> (children scene) True = h # rest"
  shows "getGroundPosition io scene wheelBase w offset wheelIndex delta =
           (vy (hit_point h) + 0.3,
            \<lparr>position_y = vy (hit_point h) + 0.3,
             isOnDirt = (name (hit_object h) = ''ground dirt'' \<and> vy (hit_point h) < 0.5)\<rparr>)"
  using assms by (cases w) (simp add: getGroundPosition_def Let_def)

text \<open>
  C4 (as amended). When the first intersection of the downward ray from the wheel mount
  (maximal distance 3, first hit only) is an object named exactly "ground dirt", the
  wheel's dirt flag becomes true if the hit point's height is below 0.5 and false
  otherwise; the wheel's height becomes the hit height plus 0.3, which is also the value
  returned.
\<close>

theorem ground_dirt_classification:
  assumes first: "io \<lparr>ray_origin = wheelBase, ray_direction = Vector3 0 (-1) 0, far = 3,
                 firstHitOnly = True\<rparr> (children scene) True = h # rest"
    and dirt: "name (hit_object h) = ''ground dirt''"
    and res: "getGroundPosition io scene wheelBase w offset wheelIndex delta = (y', w')"
  shows "isOnDirt w' = (vy (hit_point h) < 0.5)
       \<and> position_y w' = vy (hit_point h) + 0.3
       \<and> y' = vy (hit_point h) + 0.3"
  using first dirt res by (auto simp: getGroundPosition_def Let_def split: if_splits)

theorem ground_dirt_classification_witness:
  "fixedIntersections [dirtHit ''ground dirt'' 0.2]
      \<lparr>ray_origin = Vector3 0 5 0, ray_direction = Vector3 0 (-1) 0, far = 3, firstHitOnly = True\<rparr>
      (children (Object3D ''scene'' [])) True = dirtHit ''ground dirt'' 0.2 # []
   \<and> name (hit_object (dirtHit ''ground dirt'' 0.2)) = ''ground dirt''
   \<and> getGroundPosition (fixedIntersections [dirtHit ''ground dirt'' 0.2]) (Object3D ''scene'' [])
        (Vector3 0 5 0) mockWheel 0 0 0.016 = (0.5, \<lparr>position_y = 0.5, isOnDirt = True\<rparr>)
   \<and> fixedIntersections [dirtHit ''ground dirt'' 1]
      \<lparr>ray_origin = Vector3 0 5 0, ray_direction = Vector3 0 (-1) 0, far = 3, firstHitOnly = True\<rparr>
      (children (Object3D ''scene'' [])) True = dirtHit ''ground dirt'' 1 # []
   \<and> name (hit_object (dirtHit ''ground dirt'' 1)) = ''ground dirt''
   \<and> getGroundPosition (fixedIntersections [dirtHit ''ground dirt'' 1]) (Object3D ''scene'' [])
        (Vector3 0 5 0) mockWheel 0 0 0.016 = (1.3, \<lparr>position_y = 1.3, isOnDirt = False\<rparr>)"
proof -
  have f: "fixedIntersections [dirtHit ''ground dirt'' c]
      \<lparr>ray_origin = Vector3 0 5 0, ray_direction = Vector3 0 (-1) 0, far = 3, firstHitOnly = True\<rparr>
      (children (Object3D ''scene'' [])) True = dirtHit ''ground dirt'' c # []" for c
    by (simp add: fixedIntersections_def)
  have d: "name (hit_object (dirtHit ''ground dirt'' c)) = ''ground dirt''" for c
    by (simp add: dirtHit_def)
  obtain y1 w1 where r1: "getGroundPosition (fixedIntersections [dirtHit ''ground dirt'' 0.2])
        (Object3D ''scene'' []) (Vector3 0 5 0) mockWheel 0 0 0.016 = (y1, w1)"
    by (cases "getGroundPosition (fixedIntersections [dirtHit ''ground dirt'' 0.2])
        (Object3D ''scene'' []) (Vector3 0 5 0) mockWheel 0 0 0.016")
  obtain y2 w2 where r2: "getGroundPosition (fixedIntersections [dirtHit ''ground dirt'' 1])
        (Object3D ''scene'' []) (Vector3 0 5 0) mockWheel 0 0 0.016 = (y2, w2)"
    by (cases "getGroundPosition (fixedIntersections [dirtHit ''ground dirt'' 1])
        (Object3D ''scene'' []) (Vector3 0 5 0) mockWheel 0 0 0.016")
  note t1 = ground_dirt_classification [where io = "fixedIntersections [dirtHit ''ground dirt'' 0.2]"
      and wheelBase = "Vector3 0 5 0" and scene = "Object3D ''scene'' []" and w = mockWheel
      and h = "dirtHit ''ground dirt'' 0.2" and rest = "[]"
      and offset = 0 and wheelIndex = 0 and delta = "0.016"]
  note t2 = ground_dirt_classification [where io = "fixedIntersections [dirtHit ''ground dirt'' 1]"
      and wheelBase = "Vector3 0 5 0" and scene = "Object3D ''scene'' []" and w = mockWheel
      and h = "dirtHit ''ground dirt'' 1" and rest = "[]"
      and offset = 0 and wheelIndex = 0 and delta = "0.016"]
  from t1 [OF f d r1] have "y1 = 0.5 \<and> w1 = \<lparr>position_y = 0.5, isOnDirt = True\<rparr>"
    by (cases w1) (simp add: dirtHit_def)
  moreover from t2 [OF f d r2] have "y2 = 1.3 \<and> w2 = \<lparr>position_y = 1.3, isOnDirt = False\<rparr>"
    by (cases w2) (simp add: dirtHit_def)
  ultimately show ?thesis using f d r1 r2 by simp
qed

text \<open>
  C4 as stated speaks of every name that contains "ground dirt". The resolver compares
  the name for equality: for an object named "ground dirt 2" hit at height 0.2 the flag
  is set to false.
\<close>

theorem ground_dirt_variant_counterexample:
  "fixedIntersections [dirtHit ''ground dirt 2'' 0.2]
      \<lparr>ray_origin = Vector3 0 5 0, ray_direction = Vector3 0 (-1) 0, far = 3, firstHitOnly = True\<rparr>
      (children (Object3D ''scene'' [])) True = [dirtHit ''ground dirt 2'' 0.2]
   \<and> str_includes (name (hit_object (dirtHit ''ground dirt 2'' 0.2))) ''ground dirt''
   \<and> vy (hit_point (dirtHit ''ground dirt 2'' 0.2)) < 0.5
   \<and> \<not> isOnDirt (snd (getGroundPosition (fixedIntersections [dirtHit ''ground dirt 2'' 0.2])
        (Object3D ''scene'' []) (Vector3 0 5 0) mockWheel 0 0 0.016))"
  by (simp add: fixedIntersections_def dirtHit_def getGroundPosition_def mockWheel_def Let_def)

text \<open>
  C9. When the downward ray finds no intersection, the dirt flag is set to false, the
  wheel's height is left as it was, and the value returned is that prior height.
\<close>

theorem ground_no_intersection:
  assumes "io \<lparr>ray_origin = wheelBase, ray_direction = Vector3 0 (-1) 0, far = 3,
                 firstHitOnly = True\<rparr> (children scene) True = []"
  shows "getGroundPosition io scene wheelBase w offset wheelIndex delta
           = (position_y w, w\<lparr>isOnDirt := False\<rparr>)
       \<and> position_y (snd (getGroundPosition io scene wheelBase w offset wheelIndex delta))
           = position_y w
       \<and> \<not> isOnDirt (snd (getGroundPosition io scene wheelBase w offset wheelIndex delta))"
  using assms by (simp add: getGroundPosition_def Let_def)

theorem ground_no_intersection_witness:
  "noIntersections \<lparr>ray_origin = Vector3 0 5 0, ray_direction = Vector3 0 (-1) 0, far = 3,
                 firstHitOnly = True\<rparr> (children (Object3D ''scene'' [])) True = []
   \<and> getGroundPosition noIntersections (Object3D ''scene'' []) (Vector3 0 5 0)
        \<lparr>position_y = 5, isOnDirt = True\<rparr> 0 0 0.016
       = (5, \<lparr>position_y = 5, isOnDirt = False\<rparr>)"
proof -
  have e: "noIntersections \<lparr>ray_origin = Vector3 0 5 0, ray_direction = Vector3 0 (-1) 0, far = 3,
                 firstHitOnly = True\<rparr> (children (Object3D ''scene'' [])) True = []"
    by (simp add: noIntersections_def)
  note t = ground_no_intersection [where io = noIntersections and wheelBase = "Vector3 0 5 0"
      and scene = "Object3D ''scene'' []" and w = "\<lparr>position_y = 5, isOnDirt = True\<rparr>"
      and offset = 0 and wheelIndex = 0 and delta = "0.016"]
  from t [OF e] e show ?thesis by simp
qed

end
